theory Spec2Isabelle
  imports Main
begin

section \<open>Values received from the client\<close>

text \<open>
  \<^verbatim>\<open>request.get_json()\<close> hands the handlers a parsed JSON document: a Python
  \<^verbatim>\<open>None\<close>, \<^verbatim>\<open>bool\<close>, \<^verbatim>\<open>int\<close>, \<^verbatim>\<open>str\<close>, \<^verbatim>\<open>list\<close> or \<^verbatim>\<open>dict\<close>.
  \<open>JNull\<close> stands for \<^verbatim>\<open>None\<close>, which is also what \<^verbatim>\<open>get_json\<close> yields for a body
  that is the JSON literal \<^verbatim>\<open>null\<close>. A \<^verbatim>\<open>dict\<close> is kept as the list of its items
  (a Python dict has no repeated key). Numbers with a fraction or an exponent parse to
  floating point values and are not part of this type.
\<close>

datatype json =
    JNull
  | JBool bool
  | JInt int
  | JStr string
  | JArr "json list"
  | JObj "(string \<times> json) list"

text \<open>Python's truth value of an object, as used by \<^verbatim>\<open>not data\<close> and \<^verbatim>\<open>not name\<close>.\<close>

fun truthy :: "json \<Rightarrow> bool" where
  "truthy JNull = False"
| "truthy (JBool b) = b"
| "truthy (JInt n) = (n \<noteq> 0)"
| "truthy (JStr s) = (s \<noteq> [])"
| "truthy (JArr xs) = (xs \<noteq> [])"
| "truthy (JObj kvs) = (kvs \<noteq> [])"

text \<open>
  Exceptions the handlers can meet. \<open>BindingError\<close> is what \<^verbatim>\<open>sqlite3\<close> raises for a
  parameter of an unsupported type, \<open>OverflowError\<close> what it raises for a Python
  \<^verbatim>\<open>int\<close> that does not fit SQLite's signed 64-bit \<^verbatim>\<open>INTEGER\<close>; like
  \<open>AttributeError\<close> they are not caught by any \<^verbatim>\<open>except sqlite3.IntegrityError\<close>
  clause.
\<close>

datatype exn = AttributeError | BindingError | OverflowError | IntegrityError

text \<open>\<^verbatim>\<open>data.get(key)\<close>: only a dict has the method; a missing key gives \<^verbatim>\<open>None\<close>.\<close>

fun py_get :: "json \<Rightarrow> string \<Rightarrow> exn + json" where
  "py_get (JObj kvs) k = Inr (case map_of kvs k of None \<Rightarrow> JNull | Some v \<Rightarrow> v)"
| "py_get _ k = Inl AttributeError"

section \<open>HTTP responses\<close>

record response =
  status :: nat
  body :: json

definition jsonify :: "json \<Rightarrow> response" where
  "jsonify v = \<lparr>status = 200, body = v\<rparr>"

definition with_status :: "response \<Rightarrow> nat \<Rightarrow> response" where
  "with_status r s = r\<lparr>status := s\<rparr>"

definition error_response :: "string \<Rightarrow> nat \<Rightarrow> response" where
  "error_response message st = with_status (jsonify (JObj [(''error'', JStr message)])) st"

section \<open>Storage layer\<close>

text \<open>
  The table \<^verbatim>\<open>users\<close> of \<^verbatim>\<open>init_db\<close>: \<^verbatim>\<open>id INTEGER PRIMARY KEY AUTOINCREMENT\<close>,
  \<^verbatim>\<open>name TEXT NOT NULL\<close>, \<^verbatim>\<open>email TEXT UNIQUE NOT NULL\<close>, \<^verbatim>\<open>created_at TEXT NOT NULL\<close>.
  Rows are kept in rowid order. \<open>sqlite_sequence\<close> is the largest rowid the table has
  ever held, which \<^verbatim>\<open>AUTOINCREMENT\<close> records. Python's integers are unbounded and
  SQLite's are signed 64-bit: an integer that a request supplies is checked against that
  range when it is bound. The rowids that \<^verbatim>\<open>AUTOINCREMENT\<close> hands out are taken as they
  come: a table that has used up all of them is not modelled.
\<close>

record user_row =
  row_id :: int
  row_name :: string
  row_email :: string
  row_created_at :: string

record database =
  users :: "user_row list"
  sqlite_sequence :: int

text \<open>
  A connection sees its own uncommitted work; \<^verbatim>\<open>commit\<close> makes it durable, and closing
  the connection (\<^verbatim>\<open>close_db\<close>, run at the end of every request) drops what was not
  committed.
\<close>

record connection =
  committed :: database
  working :: database

definition get_db :: "database \<Rightarrow> connection" where
  "get_db d = \<lparr>committed = d, working = d\<rparr>"

definition commit :: "connection \<Rightarrow> connection" where
  "commit c = c\<lparr>committed := working c\<rparr>"

definition close_db :: "connection \<Rightarrow> database" where
  "close_db c = committed c"

definition init_db :: "database option \<Rightarrow> database" where
  "init_db f = (case f of None \<Rightarrow> \<lparr>users = [], sqlite_sequence = 0\<rparr> | Some d \<Rightarrow> d)"

subsection \<open>Binding parameters\<close>

datatype sql_value = SqlNull | SqlInt int | SqlText string

definition int64 :: "int \<Rightarrow> bool" where
  "int64 n = (- 9223372036854775808 \<le> n \<and> n < 9223372036854775808)"

fun bind_param :: "json \<Rightarrow> exn + sql_value" where
  "bind_param JNull = Inr SqlNull"
| "bind_param (JBool b) = Inr (SqlInt (if b then 1 else 0))"
| "bind_param (JInt n) = (if int64 n then Inr (SqlInt n) else Inl OverflowError)"
| "bind_param (JStr s) = Inr (SqlText s)"
| "bind_param (JArr xs) = Inl BindingError"
| "bind_param (JObj kvs) = Inl BindingError"

definition digit_char :: "nat \<Rightarrow> char" where
  "digit_char n = char_of (48 + n)"

fun show_nat :: "nat \<Rightarrow> string" where
  "show_nat n = (if n < 10 then [digit_char n] else show_nat (n div 10) @ [digit_char (n mod 10)])"

declare show_nat.simps [simp del]

definition show_int :: "int \<Rightarrow> string" where
  "show_int i = (if i < 0 then CHR ''-'' # show_nat (nat (- i)) else show_nat (nat i))"

text \<open>
  A column of \<^verbatim>\<open>TEXT\<close> affinity stores an integer as its decimal text. \<open>None\<close> is
  \<^verbatim>\<open>NULL\<close>, which a \<^verbatim>\<open>NOT NULL\<close> column refuses.
\<close>

fun text_affinity :: "sql_value \<Rightarrow> string option" where
  "text_affinity SqlNull = None"
| "text_affinity (SqlInt n) = Some (show_int n)"
| "text_affinity (SqlText s) = Some s"

subsection \<open>Statements\<close>

text \<open>\<^verbatim>\<open>SELECT * FROM users\<close>\<close>

definition select_all :: "connection \<Rightarrow> user_row list" where
  "select_all c = users (working c)"

text \<open>\<^verbatim>\<open>SELECT * FROM users WHERE id = ?\<close>, then \<^verbatim>\<open>fetchone()\<close>\<close>

definition select_by_id :: "connection \<Rightarrow> int \<Rightarrow> exn + user_row option" where
  "select_by_id c user_id =
     (case bind_param (JInt user_id) of Inl e \<Rightarrow> Inl e | Inr i \<Rightarrow>
      Inr (find (\<lambda>u. row_id u = user_id) (users (working c))))"

definition next_rowid :: "database \<Rightarrow> int" where
  "next_rowid d = fold max (map row_id (users d)) (sqlite_sequence d) + 1"

text \<open>
  \<^verbatim>\<open>INSERT INTO users (name, email, created_at) VALUES (?, ?, ?)\<close>. The parameters are
  bound in order before the statement runs; a statement that violates a constraint
  changes nothing.
\<close>

definition insert_user :: "connection \<Rightarrow> json \<Rightarrow> json \<Rightarrow> string \<Rightarrow> exn + connection" where
  "insert_user c name email created_at =
     (case bind_param name of Inl e \<Rightarrow> Inl e | Inr n \<Rightarrow>
      case bind_param email of Inl e \<Rightarrow> Inl e | Inr m \<Rightarrow>
      case text_affinity n of None \<Rightarrow> Inl IntegrityError | Some nm \<Rightarrow>
      case text_affinity m of None \<Rightarrow> Inl IntegrityError | Some em \<Rightarrow>
        if em \<in> set (map row_email (users (working c))) then Inl IntegrityError
        else
          let i = next_rowid (working c);
              r = \<lparr>row_id = i, row_name = nm, row_email = em, row_created_at = created_at\<rparr>
          in Inr (c\<lparr>working := \<lparr>users = users (working c) @ [r], sqlite_sequence = i\<rparr>\<rparr>))"

text \<open>\<^verbatim>\<open>UPDATE users SET name = ?, email = ? WHERE id = ?\<close>\<close>

definition update_row :: "connection \<Rightarrow> json \<Rightarrow> json \<Rightarrow> int \<Rightarrow> exn + connection" where
  "update_row c new_name new_email user_id =
     (case bind_param new_name of Inl e \<Rightarrow> Inl e | Inr n \<Rightarrow>
      case bind_param new_email of Inl e \<Rightarrow> Inl e | Inr m \<Rightarrow>
      case bind_param (JInt user_id) of Inl e \<Rightarrow> Inl e | Inr i \<Rightarrow>
      if list_all (\<lambda>u. row_id u \<noteq> user_id) (users (working c)) then Inr c
      else
      case text_affinity n of None \<Rightarrow> Inl IntegrityError | Some nm \<Rightarrow>
      case text_affinity m of None \<Rightarrow> Inl IntegrityError | Some em \<Rightarrow>
        if list_ex (\<lambda>v. row_id v \<noteq> user_id \<and> row_email v = em) (users (working c))
        then Inl IntegrityError
        else Inr (c\<lparr>working := (working c)\<lparr>users :=
               map (\<lambda>u. if row_id u = user_id then u\<lparr>row_name := nm, row_email := em\<rparr> else u)
                 (users (working c))\<rparr>\<rparr>))"

text \<open>\<^verbatim>\<open>DELETE FROM users WHERE id = ?\<close>; the second component is \<^verbatim>\<open>cursor.rowcount\<close>.\<close>

definition delete_row :: "connection \<Rightarrow> int \<Rightarrow> exn + connection \<times> nat" where
  "delete_row c user_id =
     (case bind_param (JInt user_id) of Inl e \<Rightarrow> Inl e | Inr i \<Rightarrow>
      Inr (c\<lparr>working := (working c)\<lparr>users :=
             filter (\<lambda>u. row_id u \<noteq> user_id) (users (working c))\<rparr>\<rparr>,
           length (filter (\<lambda>u. row_id u = user_id) (users (working c)))))"

section \<open>Handlers\<close>

text \<open>
  A handler takes the stored database, the route's arguments and the value of
  \<^verbatim>\<open>request.get_json()\<close>; it returns the response, or the exception that escapes it, and
  the database left behind once \<^verbatim>\<open>close_db\<close> has closed the connection.
\<close>

definition user_to_dict :: "user_row \<Rightarrow> json" where
  "user_to_dict row = JObj
     [(''id'', JInt (row_id row)),
      (''name'', JStr (row_name row)),
      (''email'', JStr (row_email row)),
      (''created_at'', JStr (row_created_at row))]"

definition home :: response where
  "home = jsonify (JObj
     [(''message'', JStr ''Flask API is running''),
      (''endpoints'', JArr
         [JStr ''GET /users'',
          JStr ''POST /users'',
          JStr ''GET /users/<id>'',
          JStr ''PUT /users/<id>'',
          JStr ''DELETE /users/<id>''])])"

definition get_users :: "database \<Rightarrow> (exn + response) \<times> database" where
  "get_users d =
     (let db = get_db d;
          us = select_all db
      in (Inr (jsonify (JArr (map user_to_dict us))), close_db db))"

text \<open>\<open>now\<close> is the text of \<^verbatim>\<open>datetime.utcnow().isoformat()\<close> at the time of the request.\<close>

definition create_user :: "database \<Rightarrow> string \<Rightarrow> json \<Rightarrow> (exn + response) \<times> database" where
  "create_user d now data =
     (if \<not> truthy data then (Inr (error_response ''JSON body required'' 400), d)
      else
      case py_get data ''name'' of Inl e \<Rightarrow> (Inl e, d) | Inr name \<Rightarrow>
      case py_get data ''email'' of Inl e \<Rightarrow> (Inl e, d) | Inr email \<Rightarrow>
      if \<not> truthy name \<or> \<not> truthy email
      then (Inr (error_response ''Name and email are required'' 400), d)
      else
        let db = get_db d in
        case insert_user db name email now of
          Inl IntegrityError \<Rightarrow> (Inr (error_response ''Email already exists'' 409), close_db db)
        | Inl e \<Rightarrow> (Inl e, close_db db)
        | Inr db' \<Rightarrow>
            (Inr (with_status (jsonify (JObj [(''message'', JStr ''User created'')])) 201),
             close_db (commit db')))"

definition get_user :: "database \<Rightarrow> int \<Rightarrow> (exn + response) \<times> database" where
  "get_user d user_id =
     (let db = get_db d in
      case select_by_id db user_id of
        Inl e \<Rightarrow> (Inl e, close_db db)
      | Inr None \<Rightarrow> (Inr (error_response ''User not found'' 404), close_db db)
      | Inr (Some user) \<Rightarrow> (Inr (jsonify (user_to_dict user)), close_db db))"

definition update_user :: "database \<Rightarrow> int \<Rightarrow> json \<Rightarrow> (exn + response) \<times> database" where
  "update_user d user_id data =
     (if \<not> truthy data then (Inr (error_response ''JSON body required'' 400), d)
      else
      case py_get data ''name'' of Inl e \<Rightarrow> (Inl e, d) | Inr name \<Rightarrow>
      case py_get data ''email'' of Inl e \<Rightarrow> (Inl e, d) | Inr email \<Rightarrow>
      if \<not> truthy name \<and> \<not> truthy email
      then (Inr (error_response ''Nothing to update'' 400), d)
      else
        let db = get_db d in
        case select_by_id db user_id of
          Inl e \<Rightarrow> (Inl e, close_db db)
        | Inr None \<Rightarrow> (Inr (error_response ''User not found'' 404), close_db db)
        | Inr (Some user) \<Rightarrow>
            let new_name = (if truthy name then name else JStr (row_name user));
                new_email = (if truthy email then email else JStr (row_email user))
            in
            case update_row db new_name new_email user_id of
              Inl IntegrityError \<Rightarrow>
                (Inr (error_response ''Email already exists'' 409), close_db db)
            | Inl e \<Rightarrow> (Inl e, close_db db)
            | Inr db' \<Rightarrow>
                (Inr (jsonify (JObj [(''message'', JStr ''User updated'')])),
                 close_db (commit db')))"

definition delete_user :: "database \<Rightarrow> int \<Rightarrow> (exn + response) \<times> database" where
  "delete_user d user_id =
     (let db = get_db d in
      case delete_row db user_id of
        Inl e \<Rightarrow> (Inl e, close_db db)
      | Inr (db', rowcount) \<Rightarrow>
          let db'' = commit db' in
          if rowcount = 0 then (Inr (error_response ''User not found'' 404), close_db db'')
          else (Inr (jsonify (JObj [(''message'', JStr ''User deleted'')])), close_db db''))"

definition not_found :: response where
  "not_found = error_response ''Endpoint not found'' 404"

definition server_error :: response where
  "server_error = error_response ''Internal server error'' 500"

section \<open>Routing\<close>

text \<open>
  The URL map that the \<^verbatim>\<open>@app.route\<close> decorators build. The \<^verbatim>\<open>int\<close> converter of
  \<^verbatim>\<open>/users/<int:user_id>\<close> accepts a segment that is a non-empty run of decimal digits
  and nothing else (no sign, no slash). A path that no rule matches is answered by the
  404 handler \<^verbatim>\<open>not_found\<close>; a path that a rule matches with other methods only is
  answered by the framework (405), for which the source registers no handler.
\<close>

datatype http_method = GET | POST | PUT | DELETE

record request =
  req_method :: http_method
  req_path :: string
  req_json :: json

datatype endpoint =
    Home
  | Get_users
  | Create_user
  | Get_user int
  | Update_user int
  | Delete_user int

datatype routing = Matched endpoint | NotFound | MethodNotAllowed

definition is_digit :: "char \<Rightarrow> bool" where
  "is_digit c = (c \<in> set ''0123456789'')"

definition digit_value :: "char \<Rightarrow> int" where
  "digit_value c = int (of_char c) - 48"

definition int_converter :: "string \<Rightarrow> int option" where
  "int_converter seg =
     (if seg \<noteq> [] \<and> list_all is_digit seg
      then Some (foldl (\<lambda>a c. 10 * a + digit_value c) 0 seg)
      else None)"

definition match_route :: "http_method \<Rightarrow> string \<Rightarrow> routing" where
  "match_route m p =
     (if p = ''/'' then (case m of GET \<Rightarrow> Matched Home | _ \<Rightarrow> MethodNotAllowed)
      else if p = ''/users'' then
        (case m of GET \<Rightarrow> Matched Get_users | POST \<Rightarrow> Matched Create_user
         | _ \<Rightarrow> MethodNotAllowed)
      else if take 7 p = ''/users/'' then
        (case int_converter (drop 7 p) of
           None \<Rightarrow> NotFound
         | Some user_id \<Rightarrow>
             (case m of GET \<Rightarrow> Matched (Get_user user_id)
              | PUT \<Rightarrow> Matched (Update_user user_id)
              | DELETE \<Rightarrow> Matched (Delete_user user_id)
              | POST \<Rightarrow> MethodNotAllowed))
      else NotFound)"

text \<open>
  What the client receives: a response built by the source, or the framework's own 405.
  An exception that escapes a handler is answered by the 500 handler \<^verbatim>\<open>server_error\<close>.
\<close>

datatype reply = Reply response | Framework405

definition handle_exception :: "(exn + response) \<times> database \<Rightarrow> reply \<times> database" where
  "handle_exception r =
     (case fst r of Inl e \<Rightarrow> (Reply server_error, snd r) | Inr resp \<Rightarrow> (Reply resp, snd r))"

definition dispatch_request :: "database \<Rightarrow> string \<Rightarrow> request \<Rightarrow> reply \<times> database" where
  "dispatch_request d now req =
     (case match_route (req_method req) (req_path req) of
        NotFound \<Rightarrow> (Reply not_found, d)
      | MethodNotAllowed \<Rightarrow> (Framework405, d)
      | Matched Home \<Rightarrow> (Reply home, d)
      | Matched Get_users \<Rightarrow> handle_exception (get_users d)
      | Matched Create_user \<Rightarrow> handle_exception (create_user d now (req_json req))
      | Matched (Get_user user_id) \<Rightarrow> handle_exception (get_user d user_id)
      | Matched (Update_user user_id) \<Rightarrow> handle_exception (update_user d user_id (req_json req))
      | Matched (Delete_user user_id) \<Rightarrow> handle_exception (delete_user d user_id))"

text \<open>
  The two key constraints of the table: \<^verbatim>\<open>PRIMARY KEY\<close> on \<^verbatim>\<open>id\<close> and \<^verbatim>\<open>UNIQUE\<close> on
  \<^verbatim>\<open>email\<close>.
\<close>

definition primary_key :: "database \<Rightarrow> bool" where
  "primary_key d = distinct (map row_id (users d))"

definition unique_email :: "database \<Rightarrow> bool" where
  "unique_email d = distinct (map row_email (users d))"

text \<open>Every rowid that the table holds is an SQLite \<^verbatim>\<open>INTEGER\<close>.\<close>

definition rowids_in_range :: "database \<Rightarrow> bool" where
  "rowids_in_range d = list_all (\<lambda>u. int64 (row_id u)) (users d)"

text \<open>
  The three forms in which a request can leave a field out: the key is absent, its value
  is \<^verbatim>\<open>null\<close>, or its value is the empty string.
\<close>

definition not_provided :: "json option \<Rightarrow> bool" where
  "not_provided v = (v = None \<or> v = Some JNull \<or> v = Some (JStr []))"

text \<open>A table of two users, for concrete runs of the handlers.\<close>

definition ann :: user_row where
  "ann = \<lparr>row_id = 1, row_name = ''Ann'', row_email = ''ann@x.com'', row_created_at = ''t1''\<rparr>"

definition bob :: user_row where
  "bob = \<lparr>row_id = 2, row_name = ''Bob'', row_email = ''bob@x.com'', row_created_at = ''t2''\<rparr>"

definition two_users :: database where
  "two_users = \<lparr>users = [ann, bob], sqlite_sequence = 2\<rparr>"

lemmas handler_defs = update_user_def create_user_def delete_user_def get_user_def
  insert_user_def update_row_def delete_row_def select_by_id_def next_rowid_def
  get_db_def commit_def close_db_def jsonify_def error_response_def with_status_def
  two_users_def ann_def bob_def int64_def

section \<open>Deleting\<close>

lemma delete_user_absent:
  assumes "int64 user_id" and "user_id \<notin> row_id ` set (users d)"
  shows "delete_user d user_id = (Inr (error_response ''User not found'' 404), d)"
proof -
  have keep: "filter (\<lambda>u. row_id u \<noteq> user_id) (users d) = users d"
    using assms(2) by (auto simp: filter_id_conv)
  have none: "filter (\<lambda>u. row_id u = user_id) (users d) = []"
    using assms(2) by (auto simp: filter_empty_conv)
  show ?thesis
    using assms(1)
    by (simp add: delete_user_def delete_row_def get_db_def commit_def close_db_def keep none)
qed

lemma delete_user_present:
  assumes "int64 user_id" and "user_id \<in> row_id ` set (users d)"
  shows "delete_user d user_id =
     (Inr (jsonify (JObj [(''message'', JStr ''User deleted'')])),
      d\<lparr>users := filter (\<lambda>u. row_id u \<noteq> user_id) (users d)\<rparr>)"
proof -
  have some: "filter (\<lambda>u. row_id u = user_id) (users d) \<noteq> []"
    using assms(2) by (auto simp: filter_empty_conv)
  show ?thesis
    using some assms(1)
    by (simp add: delete_user_def delete_row_def get_db_def commit_def close_db_def)
qed

text \<open>
  C6. Deleting twice: when the table holds a row with the id, the first
  \<^verbatim>\<open>DELETE /users/{id}\<close> answers 200 \<^verbatim>\<open>{"message": "User deleted"}\<close> and leaves a table
  without any row of that id; the second answers 404 \<^verbatim>\<open>{"error": "User not found"}\<close>
  and leaves the state the first one left. The table's rowids are SQLite integers.
\<close>

theorem delete_user_twice:
  assumes "rowids_in_range d" and "user_id \<in> row_id ` set (users d)"
  shows "fst (delete_user d user_id) = Inr \<lparr>status = 200, body = JObj [(''message'', JStr ''User deleted'')]\<rparr>
       \<and> user_id \<notin> row_id ` set (users (snd (delete_user d user_id)))
       \<and> users (snd (delete_user d user_id)) = filter (\<lambda>u. row_id u \<noteq> user_id) (users d)
       \<and> fst (delete_user (snd (delete_user d user_id)) user_id)
           = Inr \<lparr>status = 404, body = JObj [(''error'', JStr ''User not found'')]\<rparr>
       \<and> snd (delete_user (snd (delete_user d user_id)) user_id) = snd (delete_user d user_id)"
proof -
  let ?d1 = "d\<lparr>users := filter (\<lambda>u. row_id u \<noteq> user_id) (users d)\<rparr>"
  have r: "int64 user_id"
    using assms by (auto simp: rowids_in_range_def list_all_iff)
  have first: "delete_user d user_id =
      (Inr (jsonify (JObj [(''message'', JStr ''User deleted'')])), ?d1)"
    using r assms(2) by (rule delete_user_present)
  have gone: "user_id \<notin> row_id ` set (users ?d1)"
    by auto
  have second: "delete_user ?d1 user_id = (Inr (error_response ''User not found'' 404), ?d1)"
    using r gone by (rule delete_user_absent)
  have "user_id \<notin> row_id ` set (users (snd (delete_user d user_id)))"
    by (auto simp: first)
  moreover have "fst (delete_user (snd (delete_user d user_id)) user_id)
      = Inr \<lparr>status = 404, body = JObj [(''error'', JStr ''User not found'')]\<rparr>"
    by (simp only: first snd_conv second fst_conv)
       (simp add: jsonify_def error_response_def with_status_def)
  moreover have "snd (delete_user (snd (delete_user d user_id)) user_id) = snd (delete_user d user_id)"
    by (simp only: first snd_conv second)
  ultimately show ?thesis
    by (simp add: first jsonify_def)
qed

theorem delete_user_twice_witness:
  "rowids_in_range two_users
   \<and> fst (delete_user two_users 1)
     = Inr \<lparr>status = 200, body = JObj [(''message'', JStr ''User deleted'')]\<rparr>
   \<and> users (snd (delete_user two_users 1)) = [bob]
   \<and> fst (delete_user (snd (delete_user two_users 1)) 1)
     = Inr \<lparr>status = 404, body = JObj [(''error'', JStr ''User not found'')]\<rparr>
   \<and> snd (delete_user (snd (delete_user two_users 1)) 1) = snd (delete_user two_users 1)"
proof -
  have 1: "rowids_in_range two_users"
    by (simp add: rowids_in_range_def two_users_def ann_def bob_def int64_def)
  have 2: "1 \<in> row_id ` set (users two_users)"
    by (simp add: two_users_def ann_def bob_def)
  have 3: "filter (\<lambda>u. row_id u \<noteq> 1) (users two_users) = [bob]"
    by (simp add: two_users_def ann_def bob_def)
  from delete_user_twice [OF 1 2] 1 3 show ?thesis by simp
qed

lemma delete_user_out_of_range:
  "delete_user two_users 9223372036854775808 = (Inl OverflowError, two_users)"
  by (simp add: delete_user_def delete_row_def get_db_def close_db_def int64_def)

section \<open>Updating\<close>

lemma committed_get_db: "committed (get_db d) = d"
  by (simp add: get_db_def)

lemma update_user_cases:
  "update_user d uid data = (Inr (error_response ''JSON body required'' 400), d)
   \<or> (\<exists>e. update_user d uid data = (Inl e, d))
   \<or> update_user d uid data = (Inr (error_response ''Nothing to update'' 400), d)
   \<or> update_user d uid data = (Inr (error_response ''User not found'' 404), d)
   \<or> update_user d uid data = (Inr (error_response ''Email already exists'' 409), d)
   \<or> (\<exists>a b c'. update_row (get_db d) a b uid = Inr c'
         \<and> update_user d uid data
             = (Inr (jsonify (JObj [(''message'', JStr ''User updated'')])), working c'))"
proof (cases "truthy data")
  case False
  then show ?thesis by (simp add: update_user_def)
next
  case t: True
  show ?thesis
  proof (cases "py_get data ''name''")
    case (Inl e)
    then show ?thesis using t by (simp add: update_user_def)
  next
    case n: (Inr name)
    show ?thesis
    proof (cases "py_get data ''email''")
      case (Inl e)
      then show ?thesis using t n by (simp add: update_user_def)
    next
      case e: (Inr email)
      show ?thesis
      proof (cases "\<not> truthy name \<and> \<not> truthy email")
        case True
        then show ?thesis using t n e by (simp add: update_user_def)
      next
        case f: False
        show ?thesis
        proof (cases "select_by_id (get_db d) uid")
          case (Inl x)
          then show ?thesis
            using t n e f by (auto simp: update_user_def close_db_def committed_get_db)
        next
          case r: (Inr found)
          show ?thesis
          proof (cases found)
            case None
            then show ?thesis
              using t n e f r by (auto simp: update_user_def close_db_def committed_get_db)
          next
            case s: (Some user)
            let ?a = "if truthy name then name else JStr (row_name user)"
            let ?b = "if truthy email then email else JStr (row_email user)"
            have u: "update_user d uid data =
              (case update_row (get_db d) ?a ?b uid of
                 Inl IntegrityError \<Rightarrow> (Inr (error_response ''Email already exists'' 409), d)
               | Inl x \<Rightarrow> (Inl x, d)
               | Inr db' \<Rightarrow> (Inr (jsonify (JObj [(''message'', JStr ''User updated'')])), working db'))"
              using t n e f r s
              by (auto simp: update_user_def close_db_def commit_def committed_get_db Let_def
                  cong: sum.case_cong exn.case_cong)
            show ?thesis
            proof (cases "update_row (get_db d) ?a ?b uid")
              case (Inl x)
              then show ?thesis using u by (cases x) simp_all
            next
              case (Inr c')
              then have "update_user d uid data
                  = (Inr (jsonify (JObj [(''message'', JStr ''User updated'')])), working c')"
                using u by simp
              then show ?thesis using Inr by blast
            qed
          qed
        qed
      qed
    qed
  qed
qed

lemma update_user_unchanged_unless_ok:
  "fst (update_user d uid data) \<noteq> Inr (jsonify (JObj [(''message'', JStr ''User updated'')]))
   \<Longrightarrow> snd (update_user d uid data) = d"
  using update_user_cases [of d uid data] by auto

text \<open>
  C10. A \<^verbatim>\<open>PUT /users/{id}\<close> that answers 409 leaves the stored table as it was: the
  statement that met the constraint changed nothing, nothing was committed, and the
  connection is closed. The 409 body is \<^verbatim>\<open>{"error": "Email already exists"}\<close>.
\<close>

theorem update_user_conflict_keeps_table:
  assumes "fst (update_user d user_id data) = Inr r" and "status r = 409"
  shows "snd (update_user d user_id data) = d
       \<and> r = \<lparr>status = 409, body = JObj [(''error'', JStr ''Email already exists'')]\<rparr>"
proof -
  have "fst (update_user d user_id data) \<noteq> Inr (jsonify (JObj [(''message'', JStr ''User updated'')]))"
    using assms by (auto simp: jsonify_def)
  then have "snd (update_user d user_id data) = d" by (rule update_user_unchanged_unless_ok)
  moreover have "r = \<lparr>status = 409, body = JObj [(''error'', JStr ''Email already exists'')]\<rparr>"
    using update_user_cases [of d user_id data] assms
    by (auto simp: error_response_def jsonify_def with_status_def)
  ultimately show ?thesis by simp
qed

theorem update_user_conflict_keeps_table_witness:
  "fst (update_user two_users 1 (JObj [(''email'', JStr ''bob@x.com'')]))
     = Inr \<lparr>status = 409, body = JObj [(''error'', JStr ''Email already exists'')]\<rparr>
   \<and> snd (update_user two_users 1 (JObj [(''email'', JStr ''bob@x.com'')])) = two_users"
proof -
  have e: "fst (update_user two_users 1 (JObj [(''email'', JStr ''bob@x.com'')]))
     = Inr \<lparr>status = 409, body = JObj [(''error'', JStr ''Email already exists'')]\<rparr>"
    by (simp add: handler_defs)
  from update_user_conflict_keeps_table [OF e] show ?thesis using e by simp
qed

lemma update_row_frame:
  assumes "update_row c a b i = Inr c'"
  shows "map row_id (users (working c')) = map row_id (users (working c))"
    and "map row_created_at (users (working c')) = map row_created_at (users (working c))"
    and "filter (\<lambda>u. row_id u \<noteq> i) (users (working c')) = filter (\<lambda>u. row_id u \<noteq> i) (users (working c))"
    and "sqlite_sequence (working c') = sqlite_sequence (working c)"
proof -
  let ?f = "\<lambda>nm em u. if row_id u = i then u\<lparr>row_name := nm, row_email := em\<rparr> else u"
  have ids: "map row_id (map (?f nm em) xs) = map row_id xs" for nm em and xs :: "user_row list"
    by (induction xs) auto
  have cr: "map row_created_at (map (?f nm em) xs) = map row_created_at xs" for nm em and xs :: "user_row list"
    by (induction xs) auto
  have fl: "filter (\<lambda>u. row_id u \<noteq> i) (map (?f nm em) xs) = filter (\<lambda>u. row_id u \<noteq> i) xs"
    for nm em and xs :: "user_row list"
    by (induction xs) auto
  from assms show "map row_id (users (working c')) = map row_id (users (working c))"
    by (auto simp: update_row_def ids split: sum.splits option.splits if_splits)
  from assms show "map row_created_at (users (working c')) = map row_created_at (users (working c))"
    by (auto simp: update_row_def cr split: sum.splits option.splits if_splits)
  from assms show "filter (\<lambda>u. row_id u \<noteq> i) (users (working c')) = filter (\<lambda>u. row_id u \<noteq> i) (users (working c))"
    by (auto simp: update_row_def fl split: sum.splits option.splits if_splits)
  from assms show "sqlite_sequence (working c') = sqlite_sequence (working c)"
    by (auto simp: update_row_def split: sum.splits option.splits if_splits)
qed

lemma update_user_ok_cases:
  assumes "update_user d uid data = (Inr r, d')" and "status r = 200"
  shows "\<exists>a b c'. update_row (get_db d) a b uid = Inr c' \<and> d' = working c'"
  using update_user_cases [of d uid data] assms
  by (auto simp: error_response_def jsonify_def with_status_def)

text \<open>
  C9. A successful \<^verbatim>\<open>PUT /users/{id}\<close> (status 200) keeps every row's \<^verbatim>\<open>id\<close> and
  \<^verbatim>\<open>created_at\<close>, position by position, and keeps every row whose id is not the
  target's exactly as it was; only \<^verbatim>\<open>name\<close> and \<^verbatim>\<open>email\<close> of the target row can differ.
\<close>

theorem update_user_frame:
  assumes "update_user d user_id data = (Inr r, d')" and "status r = 200"
  shows "map row_id (users d') = map row_id (users d)
       \<and> map row_created_at (users d') = map row_created_at (users d)
       \<and> filter (\<lambda>u. row_id u \<noteq> user_id) (users d') = filter (\<lambda>u. row_id u \<noteq> user_id) (users d)
       \<and> sqlite_sequence d' = sqlite_sequence d"
proof -
  from update_user_ok_cases [OF assms] obtain a b c'
    where u: "update_row (get_db d) a b user_id = Inr c'" and d': "d' = working c'"
    by blast
  have w: "working (get_db d) = d" by (simp add: get_db_def)
  show ?thesis
    using update_row_frame [OF u] by (simp add: d' w)
qed

theorem update_user_frame_witness:
  "update_user two_users 1 (JObj [(''name'', JStr ''Anna'')])
     = (Inr \<lparr>status = 200, body = JObj [(''message'', JStr ''User updated'')]\<rparr>,
        \<lparr>users = [ann\<lparr>row_name := ''Anna''\<rparr>, bob], sqlite_sequence = 2\<rparr>)
   \<and> map row_id [ann\<lparr>row_name := ''Anna''\<rparr>, bob] = map row_id (users two_users)
   \<and> map row_created_at [ann\<lparr>row_name := ''Anna''\<rparr>, bob] = map row_created_at (users two_users)
   \<and> filter (\<lambda>u. row_id u \<noteq> 1) [ann\<lparr>row_name := ''Anna''\<rparr>, bob]
       = filter (\<lambda>u. row_id u \<noteq> 1) (users two_users)"
proof -
  have e: "update_user two_users 1 (JObj [(''name'', JStr ''Anna'')])
     = (Inr \<lparr>status = 200, body = JObj [(''message'', JStr ''User updated'')]\<rparr>,
        \<lparr>users = [ann\<lparr>row_name := ''Anna''\<rparr>, bob], sqlite_sequence = 2\<rparr>)"
    by (simp add: handler_defs)
  from update_user_frame [OF e] show ?thesis using e by simp
qed

text \<open>
  C1, as stated, fails: the handler checks the body before it looks the id up, so an
  empty object is answered 400 \<^verbatim>\<open>JSON body required\<close> and an object whose name and
  email are both falsy is answered 400 \<^verbatim>\<open>Nothing to update\<close>, although no row has the
  id.
\<close>

theorem update_user_absent_counterexample:
  "3 \<notin> row_id ` set (users two_users)
   \<and> update_user two_users 3 (JObj [])
       = (Inr \<lparr>status = 400, body = JObj [(''error'', JStr ''JSON body required'')]\<rparr>, two_users)
   \<and> update_user two_users 3 (JObj [(''name'', JStr ''''), (''email'', JNull)])
       = (Inr \<lparr>status = 400, body = JObj [(''error'', JStr ''Nothing to update'')]\<rparr>, two_users)
   \<and> fst (update_user two_users 3 (JObj []))
       \<noteq> Inr \<lparr>status = 404, body = JObj [(''error'', JStr ''User not found'')]\<rparr>"
  by (simp add: handler_defs)

text \<open>
  An id that the route accepts but that is no SQLite integer never gets the lookup's
  answer: binding it raises \<open>OverflowError\<close>, which no handler catches.
\<close>

lemma update_user_id_out_of_range:
  "int_converter ''9223372036854775808'' = Some 9223372036854775808
   \<and> update_user two_users 9223372036854775808 (JObj [(''name'', JStr ''Cy'')])
       = (Inl OverflowError, two_users)"
  by (simp add: int_converter_def is_digit_def digit_value_def handler_defs)

text \<open>
  C1, amended. A \<^verbatim>\<open>PUT /users/{id}\<close> whose id is an SQLite integer (signed 64-bit) that
  matches no stored row, and whose body is a JSON object with a truthy \<^verbatim>\<open>name\<close> or a
  truthy \<^verbatim>\<open>email\<close>, is answered 404 \<^verbatim>\<open>{"error": "User not found"}\<close>, and the table is
  left as it was.
\<close>

theorem update_user_absent:
  assumes "int64 user_id" and "user_id \<notin> row_id ` set (users d)"
    and "py_get data ''name'' = Inr name" and "py_get data ''email'' = Inr email"
    and "truthy name \<or> truthy email"
  shows "update_user d user_id data = (Inr (error_response ''User not found'' 404), d)"
proof -
  from assms(3) obtain kvs where data: "data = JObj kvs" by (cases data) auto
  have "kvs \<noteq> []" using assms(3,5,4) by (auto simp: data)
  then have t: "truthy data" by (simp add: data)
  have "find (\<lambda>u. row_id u = user_id) (users d) = None"
    using assms(2) by (auto simp: find_None_iff)
  then have s: "select_by_id (get_db d) user_id = Inr None"
    using assms(1) by (simp add: select_by_id_def get_db_def)
  show ?thesis
    using assms(3-5) t s by (auto simp: update_user_def close_db_def get_db_def)
qed

theorem update_user_absent_witness:
  "int64 3
   \<and> update_user two_users 3 (JObj [(''name'', JStr ''Cy'')])
     = (Inr \<lparr>status = 404, body = JObj [(''error'', JStr ''User not found'')]\<rparr>, two_users)"
proof -
  have 1: "int64 3" by (simp add: int64_def)
  have 2: "3 \<notin> row_id ` set (users two_users)" by (simp add: two_users_def ann_def bob_def)
  from update_user_absent [OF 1 2, of "JObj [(''name'', JStr ''Cy'')]" "JStr ''Cy''" JNull] 1
  show ?thesis by (simp add: error_response_def jsonify_def with_status_def)
qed

section \<open>Routing of non-integer ids\<close>

lemma match_route_user_path:
  "match_route GET (''/users/'' @ seg) =
     (case int_converter seg of None \<Rightarrow> NotFound | Some n \<Rightarrow> Matched (Get_user n))"
  by (simp add: match_route_def split: option.splits)

text \<open>
  C8. A \<^verbatim>\<open>GET /users/<segment>\<close> whose segment the \<^verbatim>\<open>int\<close> converter does not accept
  (anything but a non-empty run of decimal digits) matches no rule: the answer is the 404
  handler's \<^verbatim>\<open>{"error": "Endpoint not found"}\<close>, the table is untouched, and the answer is
  not \<^verbatim>\<open>get_user\<close>'s \<^verbatim>\<open>{"error": "User not found"}\<close>.
\<close>

theorem get_user_non_integer_segment:
  assumes "int_converter seg = None"
  shows "dispatch_request d now \<lparr>req_method = GET, req_path = ''/users/'' @ seg, req_json = j\<rparr>
           = (Reply \<lparr>status = 404, body = JObj [(''error'', JStr ''Endpoint not found'')]\<rparr>, d)
       \<and> fst (dispatch_request d now \<lparr>req_method = GET, req_path = ''/users/'' @ seg, req_json = j\<rparr>)
           \<noteq> Reply \<lparr>status = 404, body = JObj [(''error'', JStr ''User not found'')]\<rparr>"
proof -
  have m: "match_route GET (''/users/'' @ seg) = NotFound"
    using assms by (simp only: match_route_user_path option.case)
  show ?thesis
    by (simp add: dispatch_request_def m [simplified] not_found_def error_response_def
        jsonify_def with_status_def)
qed

theorem get_user_non_integer_segment_witness:
  "int_converter ''abc'' = None
   \<and> dispatch_request two_users ''t3'' \<lparr>req_method = GET, req_path = ''/users/abc'', req_json = JNull\<rparr>
       = (Reply \<lparr>status = 404, body = JObj [(''error'', JStr ''Endpoint not found'')]\<rparr>, two_users)"
proof -
  have h: "int_converter ''abc'' = None" by (simp add: int_converter_def is_digit_def)
  from get_user_non_integer_segment [OF h, of two_users "''t3''" JNull] show ?thesis using h by simp
qed

lemma get_user_integer_segment_absent:
  "dispatch_request two_users ''t3'' \<lparr>req_method = GET, req_path = ''/users/3'', req_json = JNull\<rparr>
     = (Reply \<lparr>status = 404, body = JObj [(''error'', JStr ''User not found'')]\<rparr>, two_users)"
  by (simp add: dispatch_request_def match_route_def int_converter_def is_digit_def digit_value_def
       handle_exception_def handler_defs)

section \<open>Fields that are not provided\<close>

text \<open>
  C7, as stated, fails: a body whose only key is a field with an empty or null value is
  a non-empty object and passes the \<^verbatim>\<open>not data\<close> check, while the same body with the key
  absent is the empty object and is answered \<^verbatim>\<open>JSON body required\<close>.
\<close>

theorem falsy_forms_counterexample:
  "create_user two_users ''t3'' (JObj [(''name'', JStr '''')])
     = (Inr \<lparr>status = 400, body = JObj [(''error'', JStr ''Name and email are required'')]\<rparr>, two_users)
   \<and> create_user two_users ''t3'' (JObj [])
     = (Inr \<lparr>status = 400, body = JObj [(''error'', JStr ''JSON body required'')]\<rparr>, two_users)
   \<and> update_user two_users 1 (JObj [(''name'', JNull)])
     = (Inr \<lparr>status = 400, body = JObj [(''error'', JStr ''Nothing to update'')]\<rparr>, two_users)
   \<and> update_user two_users 1 (JObj [])
     = (Inr \<lparr>status = 400, body = JObj [(''error'', JStr ''JSON body required'')]\<rparr>, two_users)
   \<and> create_user two_users ''t3'' (JObj [(''name'', JStr '''')]) \<noteq> create_user two_users ''t3'' (JObj [])
   \<and> update_user two_users 1 (JObj [(''name'', JNull)]) \<noteq> update_user two_users 1 (JObj [])"
  by (simp add: handler_defs)

text \<open>
  C7, amended. For \<^verbatim>\<open>POST /users\<close> and \<^verbatim>\<open>PUT /users/{id}\<close>, two bodies that are both
  non-empty JSON objects, that agree on every other key, and in which the field
  (\<^verbatim>\<open>name\<close> or \<^verbatim>\<open>email\<close>) is the empty string, null or absent, get the same response and
  leave the same stored state.
\<close>

theorem falsy_forms_alike:
  assumes "kvs \<noteq> []" and "kvs' \<noteq> []"
    and "f = ''name'' \<or> f = ''email''"
    and "not_provided (map_of kvs f)" and "not_provided (map_of kvs' f)"
    and "\<forall>k. k \<noteq> f \<longrightarrow> map_of kvs k = map_of kvs' k"
  shows "create_user d now (JObj kvs) = create_user d now (JObj kvs')
       \<and> update_user d user_id (JObj kvs) = update_user d user_id (JObj kvs')"
proof -
  have a: "\<not> truthy (case map_of kvs f of None \<Rightarrow> JNull | Some v \<Rightarrow> v)"
    and b: "\<not> truthy (case map_of kvs' f of None \<Rightarrow> JNull | Some v \<Rightarrow> v)"
    using assms(4,5) by (auto simp: not_provided_def)
  from assms(3) show ?thesis
  proof
    assume f: "f = ''name''"
    then have e: "map_of kvs ''email'' = map_of kvs' ''email''" using assms(6) by simp
    show ?thesis
      using a b assms(1,2)
      by (simp add: f e create_user_def update_user_def Let_def
          cong: option.case_cong sum.case_cong)
  next
    assume f: "f = ''email''"
    then have e: "map_of kvs ''name'' = map_of kvs' ''name''" using assms(6) by simp
    show ?thesis
      using a b assms(1,2)
      by (simp add: f e create_user_def update_user_def Let_def
          cong: option.case_cong sum.case_cong)
  qed
qed

theorem falsy_forms_alike_witness:
  "update_user two_users 1 (JObj [(''name'', JStr ''Anna''), (''email'', JStr '''')])
     = update_user two_users 1 (JObj [(''name'', JStr ''Anna'')])
   \<and> create_user two_users ''t3'' (JObj [(''name'', JStr ''Anna''), (''email'', JStr '''')])
     = create_user two_users ''t3'' (JObj [(''name'', JStr ''Anna'')])
   \<and> fst (update_user two_users 1 (JObj [(''name'', JStr ''Anna'')]))
     = Inr \<lparr>status = 200, body = JObj [(''message'', JStr ''User updated'')]\<rparr>"
proof -
  have 1: "[(''name'', JStr ''Anna''), (''email'', JStr '''')] \<noteq> []" by simp
  have 2: "[(''name'', JStr ''Anna'')] \<noteq> []" by simp
  have 3: "''email'' = ''name'' \<or> ''email'' = ''email''" by simp
  have 4: "not_provided (map_of [(''name'', JStr ''Anna''), (''email'', JStr '''')] ''email'')"
    by (simp add: not_provided_def)
  have 5: "not_provided (map_of [(''name'', JStr ''Anna'')] ''email'')"
    by (simp add: not_provided_def)
  have 6: "\<forall>k. k \<noteq> ''email'' \<longrightarrow>
     map_of [(''name'', JStr ''Anna''), (''email'', JStr '''')] k = map_of [(''name'', JStr ''Anna'')] k"
    by simp
  have 7: "fst (update_user two_users 1 (JObj [(''name'', JStr ''Anna'')]))
     = Inr \<lparr>status = 200, body = JObj [(''message'', JStr ''User updated'')]\<rparr>"
    by (simp add: handler_defs)
  from falsy_forms_alike [OF 1 2 3 4 5 6, of two_users "''t3''" 1] 7 show ?thesis by simp
qed

section \<open>Key constraints\<close>

lemma fold_max_ge: "(a::int) \<le> fold max xs a \<and> (\<forall>x\<in>set xs. x \<le> fold max xs a)"
proof (induction xs arbitrary: a)
  case Nil
  then show ?case by simp
next
  case (Cons y ys)
  have "max y a \<le> fold max ys (max y a)" and "\<forall>x\<in>set ys. x \<le> fold max ys (max y a)"
    using Cons.IH [of "max y a"] by auto
  then show ?case by auto
qed

lemma next_rowid_fresh: "next_rowid d \<notin> row_id ` set (users d)"
proof
  assume "next_rowid d \<in> row_id ` set (users d)"
  then have "next_rowid d \<in> set (map row_id (users d))" by simp
  then have "next_rowid d \<le> fold max (map row_id (users d)) (sqlite_sequence d)"
    using fold_max_ge [of "sqlite_sequence d" "map row_id (users d)"] by blast
  then show False by (simp add: next_rowid_def)
qed

lemma next_rowid_above_sequence: "sqlite_sequence d < next_rowid d"
  using fold_max_ge [of "sqlite_sequence d" "map row_id (users d)"] by (simp add: next_rowid_def)

lemma create_user_state:
  "snd (create_user d now data) = d
   \<or> (\<exists>nm em. em \<notin> row_email ` set (users d)
        \<and> snd (create_user d now data)
            = \<lparr>users = users d @ [\<lparr>row_id = next_rowid d, row_name = nm, row_email = em,
                                   row_created_at = now\<rparr>],
               sqlite_sequence = next_rowid d\<rparr>)"
  by (auto simp: create_user_def insert_user_def get_db_def close_db_def commit_def Let_def
      split: sum.splits option.splits if_splits exn.splits)

lemma create_user_keeps_constraints:
  assumes "primary_key d" and "unique_email d"
  shows "primary_key (snd (create_user d now data)) \<and> unique_email (snd (create_user d now data))"
  using create_user_state [of d now data] assms next_rowid_fresh [of d]
  by (auto simp: primary_key_def unique_email_def)

lemma map_update_distinct_email:
  assumes "distinct (map row_id xs)" and "distinct (map row_email xs)"
    and "\<not> list_ex (\<lambda>v. row_id v \<noteq> i \<and> row_email v = em) xs"
  shows "distinct (map row_email
           (map (\<lambda>u. if row_id u = i then u\<lparr>row_name := nm, row_email := em\<rparr> else u) xs))"
  using assms unfolding list_ex_iff
proof (induction xs)
  case Nil
  then show ?case by simp
next
  case (Cons x xs)
  let ?f = "\<lambda>u. if row_id u = i then u\<lparr>row_name := nm, row_email := em\<rparr> else u"
  have IH: "distinct (map row_email (map ?f xs))" using Cons by simp
  show ?case
  proof (cases "row_id x = i")
    case True
    have "row_id x \<notin> row_id ` set xs" using Cons.prems(1) by simp
    then have "\<forall>v\<in>set xs. row_id v \<noteq> i" using True by blast
    then have same: "map ?f xs = xs" by (simp add: map_idI)
    have "em \<notin> row_email ` set xs" using Cons.prems(3) \<open>\<forall>v\<in>set xs. row_id v \<noteq> i\<close> by auto
    then show ?thesis using True Cons.prems(2) by (simp add: same)
  next
    case False
    then have ne: "row_email x \<noteq> em" using Cons.prems(3) by simp
    have old: "row_email x \<notin> row_email ` set xs" using Cons.prems(2) by simp
    have "row_email x \<notin> set (map row_email (map ?f xs))"
    proof
      assume "row_email x \<in> set (map row_email (map ?f xs))"
      then obtain v where v: "v \<in> set xs" and e: "row_email x = row_email (?f v)" by auto
      show False
      proof (cases "row_id v = i")
        case True
        then show False using e ne by simp
      next
        case False
        then show False using e v old by auto
      qed
    qed
    then show ?thesis using False IH by simp
  qed
qed

lemma update_row_keeps_constraints:
  assumes "update_row c a b i = Inr c'"
    and "primary_key (working c)" and "unique_email (working c)"
  shows "primary_key (working c') \<and> unique_email (working c')"
proof -
  have ids: "map row_id (map (\<lambda>u. if row_id u = i then u\<lparr>row_name := nm, row_email := em\<rparr> else u) xs)
      = map row_id xs" for nm em and xs :: "user_row list"
    by (induction xs) auto
  show ?thesis
    using assms map_update_distinct_email [of "users (working c)" i]
    by (auto simp: update_row_def primary_key_def unique_email_def ids
        simp del: map_map
        split: sum.splits option.splits if_splits)
qed

lemma update_user_state:
  "snd (update_user d uid data) = d
   \<or> (\<exists>a b c'. update_row (get_db d) a b uid = Inr c' \<and> snd (update_user d uid data) = working c')"
  using update_user_cases [of d uid data] by (metis snd_conv)

lemma update_user_keeps_constraints:
  assumes "primary_key d" and "unique_email d"
  shows "primary_key (snd (update_user d uid data)) \<and> unique_email (snd (update_user d uid data))"
proof -
  have w: "working (get_db d) = d" by (simp add: get_db_def)
  from update_user_state [of d uid data] show ?thesis
  proof
    assume "snd (update_user d uid data) = d"
    then show ?thesis using assms by simp
  next
    assume "\<exists>a b c'. update_row (get_db d) a b uid = Inr c' \<and> snd (update_user d uid data) = working c'"
    then obtain a b c' where u: "update_row (get_db d) a b uid = Inr c'"
      and s: "snd (update_user d uid data) = working c'" by blast
    from update_row_keeps_constraints [OF u] assms show ?thesis by (simp add: w s)
  qed
qed

lemma delete_user_state:
  "snd (delete_user d uid) =
     (if int64 uid then d\<lparr>users := filter (\<lambda>u. row_id u \<noteq> uid) (users d)\<rparr> else d)"
  by (simp add: delete_user_def delete_row_def get_db_def commit_def close_db_def Let_def)

lemma delete_user_keeps_constraints:
  assumes "primary_key d" and "unique_email d"
  shows "primary_key (snd (delete_user d uid)) \<and> unique_email (snd (delete_user d uid))"
  using assms by (simp add: delete_user_state primary_key_def unique_email_def distinct_map_filter)

lemma insert_user_rejects_duplicate:
  "em \<in> row_email ` set (users (working c)) \<Longrightarrow>
   insert_user c (JStr nm) (JStr em) t = Inl IntegrityError"
  by (simp add: insert_user_def)

lemma update_row_rejects_duplicate:
  "list_ex (\<lambda>v. row_id v \<noteq> i \<and> row_email v = em) (users (working c)) \<Longrightarrow>
   i \<in> row_id ` set (users (working c)) \<Longrightarrow> int64 i \<Longrightarrow>
   update_row c (JStr nm) (JStr em) i = Inl IntegrityError"
  by (auto simp: update_row_def list_all_iff)

lemma create_user_strings:
  assumes "py_get data ''name'' = Inr (JStr n)" and "n \<noteq> []"
    and "py_get data ''email'' = Inr (JStr e)" and "e \<noteq> []"
  shows "create_user d now data =
     (if e \<in> row_email ` set (users d)
      then (Inr (error_response ''Email already exists'' 409), d)
      else (Inr (with_status (jsonify (JObj [(''message'', JStr ''User created'')])) 201),
            \<lparr>users = users d @ [\<lparr>row_id = next_rowid d, row_name = n, row_email = e,
                                  row_created_at = now\<rparr>],
               sqlite_sequence = next_rowid d\<rparr>))"
proof -
  from assms(1) obtain kvs where data: "data = JObj kvs" by (cases data) auto
  have "kvs \<noteq> []" using assms(1) by (auto simp: data)
  then have t: "truthy data" by (simp add: data)
  show ?thesis
    using assms t
    by (simp add: create_user_def insert_user_def get_db_def close_db_def commit_def Let_def)
qed

lemma distinct_map_count:
  "distinct (map f xs) \<Longrightarrow> x \<in> set xs \<Longrightarrow> length (filter (\<lambda>u. f u = f x) xs) = 1"
proof (induction xs)
  case Nil
  then show ?case by simp
next
  case (Cons y ys)
  show ?case
  proof (cases "f y = f x")
    case True
    then have "f x \<notin> f ` set ys" using Cons.prems(1) by simp
    then have "\<forall>v\<in>set ys. f v \<noteq> f x" by (metis imageI)
    then have "filter (\<lambda>u. f u = f x) ys = []" by (simp add: filter_empty_conv)
    then show ?thesis using True by simp
  next
    case False
    then have "x \<in> set ys" using Cons.prems(2) by auto
    then show ?thesis using False Cons by simp
  qed
qed

text \<open>
  C2. When the table (with its \<^verbatim>\<open>UNIQUE\<close> constraint holding) has a row with email
  \<open>e\<close>, a \<^verbatim>\<open>POST /users\<close> whose body carries a non-empty string name and that same
  email is answered 409 \<^verbatim>\<open>{"error": "Email already exists"}\<close>; the stored table is the
  one before the request, and exactly one row has email \<open>e\<close>.
\<close>

theorem create_user_duplicate_email:
  assumes "unique_email d" and "u \<in> set (users d)" and "row_email u = e" and "e \<noteq> []"
    and "py_get data ''name'' = Inr (JStr n)" and "n \<noteq> []"
    and "py_get data ''email'' = Inr (JStr e)"
  shows "create_user d now data
           = (Inr \<lparr>status = 409, body = JObj [(''error'', JStr ''Email already exists'')]\<rparr>, d)
       \<and> length (filter (\<lambda>v. row_email v = e) (users (snd (create_user d now data)))) = 1"
proof -
  have "e \<in> row_email ` set (users d)" using assms(2,3) by auto
  then have c: "create_user d now data = (Inr (error_response ''Email already exists'' 409), d)"
    using create_user_strings [OF assms(5,6,7,4)] by simp
  have "length (filter (\<lambda>v. row_email v = row_email u) (users d)) = 1"
    using assms(1,2) by (intro distinct_map_count) (simp_all add: unique_email_def)
  then show ?thesis
    using assms(3) by (simp add: c error_response_def jsonify_def with_status_def)
qed

theorem create_user_duplicate_email_witness:
  "create_user two_users ''t3'' (JObj [(''name'', JStr ''Bob''), (''email'', JStr ''ann@x.com'')])
     = (Inr \<lparr>status = 409, body = JObj [(''error'', JStr ''Email already exists'')]\<rparr>, two_users)
   \<and> length (filter (\<lambda>v. row_email v = ''ann@x.com'')
        (users (snd (create_user two_users ''t3''
           (JObj [(''name'', JStr ''Bob''), (''email'', JStr ''ann@x.com'')]))))) = 1"
proof -
  have 1: "unique_email two_users" by (simp add: unique_email_def two_users_def ann_def bob_def)
  have 2: "ann \<in> set (users two_users)" by (simp add: two_users_def)
  have 3: "row_email ann = ''ann@x.com''" by (simp add: ann_def)
  have 4: "''ann@x.com'' \<noteq> []" by simp
  have 5: "py_get (JObj [(''name'', JStr ''Bob''), (''email'', JStr ''ann@x.com'')]) ''name'' = Inr (JStr ''Bob'')"
    by simp
  have 6: "''Bob'' \<noteq> []" by simp
  have 7: "py_get (JObj [(''name'', JStr ''Bob''), (''email'', JStr ''ann@x.com'')]) ''email'' = Inr (JStr ''ann@x.com'')"
    by simp
  show ?thesis by (rule create_user_duplicate_email [OF 1 2 3 4 5 6 7])
qed

text \<open>
  C3. From a table in which no two rows share an id and no two rows share an email, every
  \<^verbatim>\<open>POST /users\<close>, \<^verbatim>\<open>PUT /users/{id}\<close> and \<^verbatim>\<open>DELETE /users/{id}\<close>, whatever its
  body and id, leaves a table with the same two properties. The rejection is the storage
  layer's: \<^verbatim>\<open>INSERT\<close> of an email that a row holds, and \<^verbatim>\<open>UPDATE\<close> of an existing row
  (its id an SQLite integer) to an email that another row holds, raise
  \<open>IntegrityError\<close>; the handlers only translate it.
\<close>

theorem email_stays_unique:
  assumes "primary_key d" and "unique_email d"
  shows "unique_email (snd (create_user d now data))
       \<and> unique_email (snd (update_user d user_id data))
       \<and> unique_email (snd (delete_user d user_id))
       \<and> primary_key (snd (create_user d now data))
       \<and> primary_key (snd (update_user d user_id data))
       \<and> primary_key (snd (delete_user d user_id))
       \<and> (em \<in> row_email ` set (users d) \<longrightarrow>
            insert_user (get_db d) (JStr nm) (JStr em) now = Inl IntegrityError)
       \<and> (int64 user_id \<and> user_id \<in> row_id ` set (users d)
            \<and> list_ex (\<lambda>v. row_id v \<noteq> user_id \<and> row_email v = em) (users d) \<longrightarrow>
            update_row (get_db d) (JStr nm) (JStr em) user_id = Inl IntegrityError)"
proof -
  have w: "working (get_db d) = d" by (simp add: get_db_def)
  have i: "em \<in> row_email ` set (users d) \<longrightarrow>
            insert_user (get_db d) (JStr nm) (JStr em) now = Inl IntegrityError"
    using insert_user_rejects_duplicate [of em "get_db d" nm now] by (simp add: w)
  have u: "int64 user_id \<and> user_id \<in> row_id ` set (users d)
            \<and> list_ex (\<lambda>v. row_id v \<noteq> user_id \<and> row_email v = em) (users d) \<longrightarrow>
            update_row (get_db d) (JStr nm) (JStr em) user_id = Inl IntegrityError"
    using update_row_rejects_duplicate [of user_id em "get_db d" nm] by (simp add: w)
  show ?thesis
    using create_user_keeps_constraints [OF assms, of now data]
      update_user_keeps_constraints [OF assms, of user_id data]
      delete_user_keeps_constraints [OF assms, of user_id] i u
    by blast
qed

theorem email_stays_unique_witness:
  "primary_key two_users \<and> unique_email two_users
   \<and> unique_email (snd (create_user two_users ''t3'' (JObj [(''name'', JStr ''Cy''), (''email'', JStr ''bob@x.com'')])))
   \<and> unique_email (snd (update_user two_users 1 (JObj [(''name'', JStr ''Cy''), (''email'', JStr ''bob@x.com'')])))
   \<and> unique_email (snd (delete_user two_users 1))
   \<and> insert_user (get_db two_users) (JStr ''Cy'') (JStr ''bob@x.com'') ''t3'' = Inl IntegrityError
   \<and> update_row (get_db two_users) (JStr ''Cy'') (JStr ''bob@x.com'') 1 = Inl IntegrityError"
proof -
  have 1: "primary_key two_users" by (simp add: primary_key_def two_users_def ann_def bob_def)
  have 2: "unique_email two_users" by (simp add: unique_email_def two_users_def ann_def bob_def)
  have 3: "''bob@x.com'' \<in> row_email ` set (users two_users)"
    by (simp add: two_users_def ann_def bob_def)
  have 4: "int64 1 \<and> 1 \<in> row_id ` set (users two_users)
     \<and> list_ex (\<lambda>v. row_id v \<noteq> 1 \<and> row_email v = ''bob@x.com'') (users two_users)"
    by (simp add: two_users_def ann_def bob_def int64_def)
  from email_stays_unique [OF 1 2, of "''t3''"
      "JObj [(''name'', JStr ''Cy''), (''email'', JStr ''bob@x.com'')]" 1 "''bob@x.com''" "''Cy''"]
    1 2 3 4
  show ?thesis by simp
qed

section \<open>Creating\<close>






section \<open>Partial updates\<close>

lemma find_row_by_id:
  "distinct (map row_id xs) \<Longrightarrow> u \<in> set xs \<Longrightarrow> find (\<lambda>v. row_id v = row_id u) xs = Some u"
proof (induction xs)
  case Nil
  then show ?case by simp
next
  case (Cons x xs)
  show ?case
  proof (cases "x = u")
    case True
    then show ?thesis by simp
  next
    case False
    then have m: "u \<in> set xs" using Cons.prems(2) by simp
    then have "row_id u \<in> row_id ` set xs" by (rule imageI)
    then have "row_id x \<noteq> row_id u" using Cons.prems(1) by auto
    moreover have "find (\<lambda>v. row_id v = row_id u) xs = Some u"
      using Cons.IH Cons.prems(1) m by simp
    ultimately show ?thesis by simp
  qed
qed

lemma row_of_id:
  assumes "distinct (map row_id xs)" and "u \<in> set xs" and "v \<in> set xs"
    and "row_id v = row_id u"
  shows "v = u"
proof -
  from assms(1) have "inj_on row_id (set xs)" by (simp add: distinct_map)
  then show ?thesis using assms(2-4) by (auto dest: inj_onD)
qed

lemma select_by_id_present:
  assumes "primary_key d" and "rowids_in_range d" and "u \<in> set (users d)"
  shows "select_by_id (get_db d) (row_id u) = Inr (Some u)"
proof -
  have "int64 (row_id u)"
    using assms(2,3) by (auto simp: rowids_in_range_def list_all_iff)
  moreover have "find (\<lambda>v. row_id v = row_id u) (users d) = Some u"
    using assms(1,3) by (simp add: primary_key_def find_row_by_id)
  ultimately show ?thesis by (simp add: select_by_id_def get_db_def)
qed

lemma update_row_strings:
  assumes "int64 (row_id u)" and "u \<in> set (users d)"
  shows "update_row (get_db d) (JStr nm) (JStr em) (row_id u) =
     (if list_ex (\<lambda>v. row_id v \<noteq> row_id u \<and> row_email v = em) (users d)
      then Inl IntegrityError
      else Inr ((get_db d)\<lparr>working := d\<lparr>users :=
             map (\<lambda>v. if row_id v = row_id u then v\<lparr>row_name := nm, row_email := em\<rparr> else v)
               (users d)\<rparr>\<rparr>))"
proof -
  have "\<not> list_all (\<lambda>v. row_id v \<noteq> row_id u) (users d)"
    using assms(2) by (auto simp: list_all_iff)
  then show ?thesis
    using assms(1) by (simp add: update_row_def get_db_def)
qed

lemma own_email_no_conflict:
  assumes "unique_email d" and "u \<in> set (users d)"
  shows "\<not> list_ex (\<lambda>v. row_id v \<noteq> row_id u \<and> row_email v = row_email u) (users d)"
proof -
  from assms(1) have "inj_on row_email (set (users d))"
    by (simp add: unique_email_def distinct_map)
  then have "v = u" if "v \<in> set (users d)" "row_email v = row_email u" for v
    using that assms(2) by (auto dest: inj_onD)
  then show ?thesis by (auto simp: list_ex_iff)
qed

lemma map_name_only:
  assumes "distinct (map row_id xs)" and "u \<in> set xs"
  shows "map (\<lambda>v. if row_id v = row_id u then v\<lparr>row_name := nm, row_email := row_email u\<rparr> else v) xs
       = map (\<lambda>v. if row_id v = row_id u then v\<lparr>row_name := nm\<rparr> else v) xs"
proof (rule map_cong [OF refl])
  fix v assume "v \<in> set xs"
  then have "row_id v = row_id u \<Longrightarrow> v = u"
    using row_of_id [OF assms] by blast
  then show "(if row_id v = row_id u then v\<lparr>row_name := nm, row_email := row_email u\<rparr> else v)
       = (if row_id v = row_id u then v\<lparr>row_name := nm\<rparr> else v)"
    by auto
qed

lemma map_email_only:
  assumes "distinct (map row_id xs)" and "u \<in> set xs"
  shows "map (\<lambda>v. if row_id v = row_id u then v\<lparr>row_name := row_name u, row_email := em\<rparr> else v) xs
       = map (\<lambda>v. if row_id v = row_id u then v\<lparr>row_email := em\<rparr> else v) xs"
proof (rule map_cong [OF refl])
  fix v assume "v \<in> set xs"
  then have "row_id v = row_id u \<Longrightarrow> v = u"
    using row_of_id [OF assms] by blast
  then show "(if row_id v = row_id u then v\<lparr>row_name := row_name u, row_email := em\<rparr> else v)
       = (if row_id v = row_id u then v\<lparr>row_email := em\<rparr> else v)"
    by auto
qed

lemma update_user_present:
  assumes "primary_key d" and "rowids_in_range d" and "u \<in> set (users d)"
    and "py_get data ''name'' = Inr name" and "py_get data ''email'' = Inr email"
    and "truthy name \<or> truthy email"
  shows "update_user d (row_id u) data =
     (case update_row (get_db d) (if truthy name then name else JStr (row_name u))
             (if truthy email then email else JStr (row_email u)) (row_id u) of
        Inl IntegrityError \<Rightarrow> (Inr (error_response ''Email already exists'' 409), d)
      | Inl x \<Rightarrow> (Inl x, d)
      | Inr db' \<Rightarrow> (Inr (jsonify (JObj [(''message'', JStr ''User updated'')])), working db'))"
proof -
  from assms(4) obtain kvs where data: "data = JObj kvs" by (cases data) auto
  have "kvs \<noteq> []" using assms(4,6,5) by (auto simp: data)
  then have t: "truthy data" by (simp add: data)
  have s: "select_by_id (get_db d) (row_id u) = Inr (Some u)"
    using assms(1-3) by (rule select_by_id_present)
  show ?thesis
    using assms(4-6) t s
    by (auto simp: update_user_def close_db_def commit_def committed_get_db Let_def
        cong: sum.case_cong exn.case_cong)
qed

text \<open>
  C5. For a row of the table (a table whose ids and emails are unique and whose rowids
  are SQLite integers), a \<^verbatim>\<open>PUT /users/{id}\<close> on its id whose body has a non-empty string
  \<^verbatim>\<open>name\<close> and an absent or falsy \<^verbatim>\<open>email\<close> is answered 200 and changes the table in
  exactly one way: that row's name is the new name; its email is what it was. A body with
  a non-empty string \<^verbatim>\<open>email\<close> and an absent or falsy \<^verbatim>\<open>name\<close> is answered 200 and changes
  the table in exactly one way, that row's email is the new email and its name is what it
  was, unless another row holds that email: then the answer is 409 and the table, so also
  the name, is as it was.
\<close>

theorem update_user_partial:
  assumes "primary_key d" and "unique_email d" and "rowids_in_range d"
    and "u \<in> set (users d)"
  shows "(py_get data ''name'' = Inr (JStr n) \<and> n \<noteq> []
            \<and> py_get data ''email'' = Inr email \<and> \<not> truthy email \<longrightarrow>
          update_user d (row_id u) data
            = (Inr \<lparr>status = 200, body = JObj [(''message'', JStr ''User updated'')]\<rparr>,
               d\<lparr>users := map (\<lambda>v. if row_id v = row_id u then v\<lparr>row_name := n\<rparr> else v)
                              (users d)\<rparr>))
       \<and> (py_get data ''name'' = Inr name \<and> \<not> truthy name
            \<and> py_get data ''email'' = Inr (JStr e) \<and> e \<noteq> [] \<longrightarrow>
          update_user d (row_id u) data
            = (if list_ex (\<lambda>v. row_id v \<noteq> row_id u \<and> row_email v = e) (users d)
               then (Inr \<lparr>status = 409, body = JObj [(''error'', JStr ''Email already exists'')]\<rparr>, d)
               else (Inr \<lparr>status = 200, body = JObj [(''message'', JStr ''User updated'')]\<rparr>,
                     d\<lparr>users := map (\<lambda>v. if row_id v = row_id u then v\<lparr>row_email := e\<rparr> else v)
                                    (users d)\<rparr>)))"
proof -
  have r: "int64 (row_id u)"
    using assms(3,4) by (auto simp: rowids_in_range_def list_all_iff)
  have ids: "distinct (map row_id (users d))"
    using assms(1) by (simp add: primary_key_def)
  have a: "update_user d (row_id u) data
            = (Inr \<lparr>status = 200, body = JObj [(''message'', JStr ''User updated'')]\<rparr>,
               d\<lparr>users := map (\<lambda>v. if row_id v = row_id u then v\<lparr>row_name := n\<rparr> else v)
                              (users d)\<rparr>)"
    if h: "py_get data ''name'' = Inr (JStr n)" "n \<noteq> []"
      "py_get data ''email'' = Inr email" "\<not> truthy email"
  proof -
    have "truthy (JStr n) \<or> truthy email" using h(2) by simp
    from update_user_present [OF assms(1,3,4) h(1,3) this]
    have "update_user d (row_id u) data =
       (case update_row (get_db d) (JStr n) (JStr (row_email u)) (row_id u) of
          Inl IntegrityError \<Rightarrow> (Inr (error_response ''Email already exists'' 409), d)
        | Inl x \<Rightarrow> (Inl x, d)
        | Inr db' \<Rightarrow> (Inr (jsonify (JObj [(''message'', JStr ''User updated'')])), working db'))"
      using h(2,4) by simp
    also have "update_row (get_db d) (JStr n) (JStr (row_email u)) (row_id u)
        = Inr ((get_db d)\<lparr>working := d\<lparr>users :=
             map (\<lambda>v. if row_id v = row_id u then v\<lparr>row_name := n\<rparr> else v) (users d)\<rparr>\<rparr>)"
      using update_row_strings [OF r assms(4), of n "row_email u"]
        own_email_no_conflict [OF assms(2,4)] map_name_only [OF ids assms(4), of n]
      by simp
    finally show ?thesis by (simp add: jsonify_def)
  qed
  have b: "update_user d (row_id u) data
            = (if list_ex (\<lambda>v. row_id v \<noteq> row_id u \<and> row_email v = e) (users d)
               then (Inr \<lparr>status = 409, body = JObj [(''error'', JStr ''Email already exists'')]\<rparr>, d)
               else (Inr \<lparr>status = 200, body = JObj [(''message'', JStr ''User updated'')]\<rparr>,
                     d\<lparr>users := map (\<lambda>v. if row_id v = row_id u then v\<lparr>row_email := e\<rparr> else v)
                                    (users d)\<rparr>))"
    if h: "py_get data ''name'' = Inr name" "\<not> truthy name"
      "py_get data ''email'' = Inr (JStr e)" "e \<noteq> []"
  proof -
    have "truthy name \<or> truthy (JStr e)" using h(4) by simp
    from update_user_present [OF assms(1,3,4) h(1,3) this]
    have "update_user d (row_id u) data =
       (case update_row (get_db d) (JStr (row_name u)) (JStr e) (row_id u) of
          Inl IntegrityError \<Rightarrow> (Inr (error_response ''Email already exists'' 409), d)
        | Inl x \<Rightarrow> (Inl x, d)
        | Inr db' \<Rightarrow> (Inr (jsonify (JObj [(''message'', JStr ''User updated'')])), working db'))"
      using h(2,4) by simp
    also have "update_row (get_db d) (JStr (row_name u)) (JStr e) (row_id u)
        = (if list_ex (\<lambda>v. row_id v \<noteq> row_id u \<and> row_email v = e) (users d)
           then Inl IntegrityError
           else Inr ((get_db d)\<lparr>working := d\<lparr>users :=
             map (\<lambda>v. if row_id v = row_id u then v\<lparr>row_email := e\<rparr> else v) (users d)\<rparr>\<rparr>))"
      using update_row_strings [OF r assms(4), of "row_name u" e]
        map_email_only [OF ids assms(4), of e]
      by simp
    finally show ?thesis
      by (simp add: jsonify_def error_response_def with_status_def)
  qed
  from a b show ?thesis by blast
qed

theorem update_user_partial_witness:
  "primary_key two_users \<and> unique_email two_users \<and> rowids_in_range two_users
   \<and> ann \<in> set (users two_users)
   \<and> update_user two_users 1 (JObj [(''name'', JStr ''Anna'')])
       = (Inr \<lparr>status = 200, body = JObj [(''message'', JStr ''User updated'')]\<rparr>,
          \<lparr>users = [ann\<lparr>row_name := ''Anna''\<rparr>, bob], sqlite_sequence = 2\<rparr>)
   \<and> update_user two_users 1 (JObj [(''email'', JStr ''ann2@x.com'')])
       = (Inr \<lparr>status = 200, body = JObj [(''message'', JStr ''User updated'')]\<rparr>,
          \<lparr>users = [ann\<lparr>row_email := ''ann2@x.com''\<rparr>, bob], sqlite_sequence = 2\<rparr>)
   \<and> update_user two_users 1 (JObj [(''email'', JStr ''bob@x.com'')])
       = (Inr \<lparr>status = 409, body = JObj [(''error'', JStr ''Email already exists'')]\<rparr>, two_users)"
proof -
  have 1: "primary_key two_users"
    by (simp add: primary_key_def two_users_def ann_def bob_def)
  have 2: "unique_email two_users"
    by (simp add: unique_email_def two_users_def ann_def bob_def)
  have 3: "rowids_in_range two_users"
    by (simp add: rowids_in_range_def two_users_def ann_def bob_def int64_def)
  have 4: "ann \<in> set (users two_users)"
    by (simp add: two_users_def)
  have i: "row_id ann = 1" by (simp add: ann_def)
  have m: "d\<lparr>users := map (\<lambda>v. if row_id v = 1 then f v else v) (users two_users)\<rparr>
      = \<lparr>users = [f ann, bob], sqlite_sequence = 2\<rparr>"
    if "d = two_users" for f :: "user_row \<Rightarrow> user_row" and d
    using that by (simp add: two_users_def ann_def bob_def)
  from update_user_partial [OF 1 2 3 4, of "JObj [(''name'', JStr ''Anna'')]" "''Anna''" JNull,
      THEN conjunct1]
  have a: "update_user two_users 1 (JObj [(''name'', JStr ''Anna'')])
       = (Inr \<lparr>status = 200, body = JObj [(''message'', JStr ''User updated'')]\<rparr>,
          \<lparr>users = [ann\<lparr>row_name := ''Anna''\<rparr>, bob], sqlite_sequence = 2\<rparr>)"
    by (simp add: i m)
  have n: "\<not> list_ex (\<lambda>v. row_id v \<noteq> 1 \<and> row_email v = ''ann2@x.com'') (users two_users)"
    by (simp add: two_users_def ann_def bob_def)
  from update_user_partial [OF 1 2 3 4, of "JObj [(''email'', JStr ''ann2@x.com'')]" _ _ JNull
        "''ann2@x.com''", THEN conjunct2]
  have b: "update_user two_users 1 (JObj [(''email'', JStr ''ann2@x.com'')])
       = (Inr \<lparr>status = 200, body = JObj [(''message'', JStr ''User updated'')]\<rparr>,
          \<lparr>users = [ann\<lparr>row_email := ''ann2@x.com''\<rparr>, bob], sqlite_sequence = 2\<rparr>)"
    by (simp add: i m n)
  have y: "list_ex (\<lambda>v. row_id v \<noteq> 1 \<and> row_email v = ''bob@x.com'') (users two_users)"
    by (simp add: two_users_def ann_def bob_def)
  from update_user_partial [OF 1 2 3 4, of "JObj [(''email'', JStr ''bob@x.com'')]" _ _ JNull
        "''bob@x.com''", THEN conjunct2]
  have c: "update_user two_users 1 (JObj [(''email'', JStr ''bob@x.com'')])
       = (Inr \<lparr>status = 409, body = JObj [(''error'', JStr ''Email already exists'')]\<rparr>, two_users)"
    by (simp add: i y)
  from 1 2 3 4 a b c show ?thesis by simp
qed

end
